theory Spec2Isabelle
  imports Main "HOL-Library.Sublist"
begin

section \<open>JavaScript values used by the tenant resolver\<close>

text \<open>
  Header values and the results of the extractor are JavaScript strings, \<open>null\<close> or
  \<open>undefined\<close>. A string is a \<open>string\<close>; \<open>null\<close> and \<open>undefined\<close> are both
  \<open>None\<close> (the code never tells them apart: it only tests truthiness and \<open>===\<close>
  against string literals).
\<close>

type_synonym js_string = "string option"

text \<open>The values that pass \<open>if (v)\<close>: a string that is not empty.\<close>

definition truthy :: "js_string \<Rightarrow> bool" where
  "truthy v = (case v of None \<Rightarrow> False | Some s \<Rightarrow> s \<noteq> [])"

text \<open>Calling a method on \<open>undefined\<close> throws a \<open>TypeError\<close>.\<close>

datatype js_error = TypeError

text \<open>
  \<open>s.split(sep)\<close> for a separator of one character: the pieces between the
  occurrences of the separator, empty pieces included.
\<close>

fun split_str :: "string \<Rightarrow> char \<Rightarrow> string list" where
  "split_str [] sep = [[]]"
| "split_str (c # cs) sep =
     (if c = sep then [] # split_str cs sep
      else (case split_str cs sep of
              [] \<Rightarrow> [[c]]
            | p # ps \<Rightarrow> (c # p) # ps))"

text \<open>\<open>xs[i]\<close>: \<open>undefined\<close> out of range.\<close>

definition index :: "'a list \<Rightarrow> nat \<Rightarrow> 'a option" where
  "index xs i = (if i < length xs then Some (xs ! i) else None)"

text \<open>\<open>s.includes(c)\<close> for a pattern of one character.\<close>

definition includes_str :: "string \<Rightarrow> char \<Rightarrow> bool" where
  "includes_str s c = (c \<in> set s)"

text \<open>\<open>s.startsWith(p)\<close>.\<close>

definition startsWith :: "string \<Rightarrow> string \<Rightarrow> bool" where
  "startsWith s p = prefix p s"


section \<open>The domain extractor\<close>

text \<open>
  \<open>extractTenantDomain\<close> of \<^verbatim>\<open>src/middlewares/tenantResolver.js\<close>. The result is
  \<open>Inl\<close> when the body throws and \<open>Inr\<close> of the returned value otherwise;
  \<open>domain.includes\<close> is the first method call on \<open>domain\<close>, so that is where an
  \<open>undefined\<close> first piece would throw.
\<close>

definition extractTenantDomain :: "js_string \<Rightarrow> js_error + js_string" where
  "extractTenantDomain host =
     (case host of
        None \<Rightarrow> Inr None
      | Some h \<Rightarrow>
          if h = [] then Inr None
          else
            (case index (split_str h CHR '':'') 0 of
               None \<Rightarrow> Inl TypeError
             | Some domain \<Rightarrow>
                 if domain = ''localhost'' \<or> domain = ''127.0.0.1'' then Inr None
                 else if domain = ''www.landscape360.com'' \<or> domain = ''landscape360.com'' \<or>
                         domain = ''delxn.club'' \<or> domain = ''www.delxn.club'' \<or>
                         domain = ''backend-rochin-landscaping.onrender.com'' then Inr None
                 else if includes_str domain CHR ''-'' \<and> \<not> includes_str domain CHR ''.'' then
                   Inr (Some domain)
                 else
                   (let parts = split_str domain CHR ''.'' in
                    if length parts \<ge> 3 \<and> index parts 0 \<noteq> Some ''www'' then
                      Inr (index parts 0)
                    else Inr (Some domain))))"


section \<open>Tenants, requests and the effects of the middlewares\<close>

text \<open>
  A tenant document as the resolver reads it: \<open>_id\<close>, \<open>name\<close>, \<open>subdomain\<close>
  and the optional \<open>subscription\<close> with its \<open>status\<close>
  (\<open>tenant.subscription?.status\<close>). An \<open>ObjectId\<close> is an object, hence always truthy;
  \<open>toString\<close> gives its text.
\<close>

datatype object_id = ObjectId string

fun toString :: "object_id \<Rightarrow> string" where
  "toString (ObjectId s) = s"

record subscription_doc =
  status :: "string option"

record tenant_doc =
  tenant_id :: object_id
  name :: string
  subdomain :: string
  subscription :: "subscription_doc option"

text \<open>\<open>tenant.subscription?.status\<close>\<close>

definition subscription_status :: "tenant_doc \<Rightarrow> string option" where
  "subscription_status t = (case subscription t of None \<Rightarrow> None | Some s \<Rightarrow> status s)"

text \<open>
  The value given to \<open>tenantContext.run\<close>: \<open>{}\<close> or \<open>{ tenantId, tenant }\<close>.
\<close>

record tenant_context =
  tenantId :: "object_id option"
  tenant :: "tenant_doc option"

definition empty_context :: tenant_context where
  "empty_context = \<lparr>tenantId = None, tenant = None\<rparr>"

text \<open>\<open>new ErrorResponse(message, statusCode)\<close>\<close>

record error_response =
  message :: string
  statusCode :: nat

text \<open>\<open>req.user\<close>, as the validator reads it.\<close>

record user_doc =
  role :: string
  user_tenantId :: "object_id option"

text \<open>
  The parts of the request the middlewares read: the three headers, the path and the
  authenticated user.
\<close>

record request =
  x_tenant_domain :: js_string
  x_tenant_subdomain :: js_string
  host :: js_string
  path :: string
  user :: "user_doc option"

text \<open>
  What a middleware does, in order: the directory query
  \<open>Tenant.findOne({ subdomain: key })\<close>, the assignment \<open>req.tenant = tenant\<close>,
  \<open>tenantContext.run(context, next)\<close> (the rest of the chain runs inside the
  context), \<open>next(error)\<close>, or an exception thrown by the body. \<open>console.log\<close> is
  left out.
\<close>

datatype effect =
    FindOne string
  | SetReqTenant tenant_doc
  | ContextRun tenant_context
  | NextError error_response
  | Throw js_error

text \<open>
  The tenant directory is the answer of \<open>Tenant.findOne({ subdomain: key })\<close> for each
  key: the collection belongs to the database, the resolver only queries it.
\<close>

type_synonym directory = "string \<Rightarrow> tenant_doc option"


section \<open>The tenant resolver\<close>

text \<open>
  \<open>headerSubdomain || (headerDomain ? extractTenantDomain(headerDomain) : null)\<close>
\<close>

definition resolvedFromHeader :: "request \<Rightarrow> js_error + js_string" where
  "resolvedFromHeader req =
     (if truthy (x_tenant_subdomain req) then Inr (x_tenant_subdomain req)
      else if truthy (x_tenant_domain req) then extractTenantDomain (x_tenant_domain req)
      else Inr None)"

text \<open>\<open>resolvedFromHeader || extractTenantDomain(req.headers.host)\<close>\<close>

definition tenantDomain :: "request \<Rightarrow> js_error + js_string" where
  "tenantDomain req =
     (case resolvedFromHeader req of
        Inl e \<Rightarrow> Inl e
      | Inr r \<Rightarrow> if truthy r then Inr r else extractTenantDomain (host req))"

definition resolveTenant :: "directory \<Rightarrow> request \<Rightarrow> effect list" where
  "resolveTenant findOne req =
     (case tenantDomain req of
        Inl e \<Rightarrow> [Throw e]
      | Inr None \<Rightarrow> [ContextRun empty_context]
      | Inr (Some key) \<Rightarrow>
          if key = [] \<or> startsWith (path req) ''/api/v1/admin'' \<or>
             startsWith (path req) ''/api/v1/super-admin''
          then [ContextRun empty_context]
          else FindOne key #
            (case findOne key of
               None \<Rightarrow>
                 [NextError \<lparr>message = ''Tenant not found for domain: '' @ key,
                             statusCode = 404\<rparr>]
             | Some t \<Rightarrow>
                 SetReqTenant t #
                   (if subscription_status t = Some ''inactive'' then
                      [NextError \<lparr>message = ''Tenant account is inactive'', statusCode = 403\<rparr>]
                    else [ContextRun \<lparr>tenantId = Some (tenant_id t), tenant = Some t\<rparr>])))"


section \<open>The access validator\<close>

datatype next_call = Next | NextWith error_response

text \<open>
  \<open>validateTenantAccess\<close>; \<open>store\<close> is \<open>tenantContext.getStore()\<close>, \<open>undefined\<close>
  outside of any \<open>run\<close>.
\<close>

definition validateTenantAccess :: "tenant_context option \<Rightarrow> request \<Rightarrow> next_call" where
  "validateTenantAccess store req =
     (if (case user req of None \<Rightarrow> False | Some u \<Rightarrow> role u = ''superAdmin'') then Next
      else
        (case (case store of None \<Rightarrow> None | Some c \<Rightarrow> tenantId c) of
           None \<Rightarrow> Next
         | Some tid \<Rightarrow>
             (case user req of
                None \<Rightarrow> Next
              | Some u \<Rightarrow>
                  if map_option toString (user_tenantId u) \<noteq> Some (toString tid) then
                    NextWith \<lparr>message = ''Access denied: User does not belong to this tenant'',
                              statusCode = 403\<rparr>
                  else Next)))"


section \<open>The precedence of the resolution key as the specification words it\<close>

text \<open>
  The key is the \<open>X-Tenant-Subdomain\<close> header if present, else the extractor applied
  to the \<open>X-Tenant-Domain\<close> header if that header is present, else the extractor
  applied to the \<open>Host\<close> header.
\<close>

definition key_by_strict_precedence :: "request \<Rightarrow> js_error + js_string" where
  "key_by_strict_precedence req =
     (if truthy (x_tenant_subdomain req) then Inr (x_tenant_subdomain req)
      else if truthy (x_tenant_domain req) then extractTenantDomain (x_tenant_domain req)
      else extractTenantDomain (host req))"


section \<open>The error handler\<close>

record client_response =
  response_status :: nat
  public_message :: string

text \<open>
  Modelled from the spec: the error handler (\<^verbatim>\<open>src/middlewares/error\<close>, mounted last
  by \<^verbatim>\<open>server.js\<close>), which is not among the sources. It turns the error given to
  \<open>next\<close> into the response the client sees. The response has the status of the error,
  and an unknown tenant is "surfaced to client as a 404-equivalent with the offending key
  omitted or redacted from any public-facing message": of the resolver's 404 message,
  which ends with the key, only a text without the key is shown. Every other message is
  shown as it is.
\<close>

definition errorHandler :: "error_response \<Rightarrow> client_response" where
  "errorHandler e =
     \<lparr>response_status = statusCode e,
      public_message =
        (if statusCode e = 404 \<and> startsWith (message e) ''Tenant not found for domain: ''
         then ''Tenant not found''
         else message e)\<rparr>"


section \<open>Sample data\<close>

definition acme_inactive :: tenant_doc where
  "acme_inactive =
     \<lparr>tenant_id = ObjectId ''64b000000000000000000001'', name = ''Acme'',
      subdomain = ''acme'', subscription = Some \<lparr>status = Some ''inactive''\<rparr>\<rparr>"

definition acme_active :: tenant_doc where
  "acme_active =
     \<lparr>tenant_id = ObjectId ''64b000000000000000000001'', name = ''Acme'',
      subdomain = ''acme'', subscription = Some \<lparr>status = Some ''active''\<rparr>\<rparr>"

definition directory_of :: "tenant_doc \<Rightarrow> directory" where
  "directory_of t key = (if key = subdomain t then Some t else None)"

definition request_to :: "string \<Rightarrow> string \<Rightarrow> request" where
  "request_to h p =
     \<lparr>x_tenant_domain = None, x_tenant_subdomain = None, host = Some h, path = p,
      user = None\<rparr>"


definition acme_suspended :: tenant_doc where
  "acme_suspended =
     \<lparr>tenant_id = ObjectId ''64b000000000000000000001'', name = ''Acme'',
      subdomain = ''acme'', subscription = Some \<lparr>status = Some ''suspended''\<rparr>\<rparr>"

definition acme_trialing :: tenant_doc where
  "acme_trialing =
     \<lparr>tenant_id = ObjectId ''64b000000000000000000001'', name = ''Acme'',
      subdomain = ''acme'', subscription = Some \<lparr>status = Some ''trialing''\<rparr>\<rparr>"

definition acme_no_subscription :: tenant_doc where
  "acme_no_subscription =
     \<lparr>tenant_id = ObjectId ''64b000000000000000000001'', name = ''Acme'',
      subdomain = ''acme'', subscription = None\<rparr>"

definition acme_context :: tenant_context where
  "acme_context = \<lparr>tenantId = Some (tenant_id acme_active), tenant = Some acme_active\<rparr>"

definition request_by :: "user_doc option \<Rightarrow> request" where
  "request_by u =
     \<lparr>x_tenant_domain = None, x_tenant_subdomain = None, host = Some ''acme.example.com'',
      path = ''/api/v1/customers'', user = u\<rparr>"

definition acme_staff :: user_doc where
  "acme_staff = \<lparr>role = ''staff'', user_tenantId = Some (ObjectId ''64b000000000000000000001'')\<rparr>"

definition beta_staff :: user_doc where
  "beta_staff = \<lparr>role = ''staff'', user_tenantId = Some (ObjectId ''64b000000000000000000002'')\<rparr>"

definition beta_superAdmin :: user_doc where
  "beta_superAdmin =
     \<lparr>role = ''superAdmin'', user_tenantId = Some (ObjectId ''64b000000000000000000002'')\<rparr>"

text \<open>
  A request with \<open>X-Tenant-Domain: localhost\<close> and \<open>Host: acme.example.com\<close>, and one
  with \<open>X-Tenant-Subdomain: beta\<close> and the same \<open>Host\<close>.
\<close>

definition request_domain_localhost :: request where
  "request_domain_localhost =
     \<lparr>x_tenant_domain = Some ''localhost'', x_tenant_subdomain = None,
      host = Some ''acme.example.com'', path = ''/api/v1/services'', user = None\<rparr>"

definition request_subdomain_beta :: request where
  "request_subdomain_beta =
     \<lparr>x_tenant_domain = None, x_tenant_subdomain = Some ''beta'',
      host = Some ''acme.example.com'', path = ''/api/v1/services'', user = None\<rparr>"


section \<open>Properties of the string helpers\<close>

lemma split_str_not_Nil: "split_str s sep \<noteq> []"
  by (induction s) (auto split: list.splits)

lemma index_split_str_0: "index (split_str s sep) 0 = Some (takeWhile (\<lambda>c. c \<noteq> sep) s)"
proof (induction s)
  case Nil
  show ?case by (simp add: index_def)
next
  case (Cons c cs)
  show ?case
  proof (cases "c = sep")
    case True
    then show ?thesis by (simp add: index_def)
  next
    case False
    obtain p ps where ps: "split_str cs sep = p # ps"
      using split_str_not_Nil [of cs sep] by (cases "split_str cs sep") auto
    with Cons have "p = takeWhile (\<lambda>c. c \<noteq> sep) cs"
      by (simp add: index_def)
    with False ps show ?thesis by (simp add: index_def)
  qed
qed



section \<open>The extractor never throws\<close>

lemma extractTenantDomain_Inr: "\<exists>v. extractTenantDomain h = Inr v"
  unfolding extractTenantDomain_def
  by (simp add: index_split_str_0 Let_def split: option.splits)

lemma extractTenantDomain_falsy: "\<not> truthy h \<Longrightarrow> extractTenantDomain h = Inr None"
  by (cases h) (simp_all add: extractTenantDomain_def truthy_def)

lemma resolvedFromHeader_Inr: "\<exists>v. resolvedFromHeader req = Inr v"
  unfolding resolvedFromHeader_def
  using extractTenantDomain_Inr [of "x_tenant_domain req"] by auto

lemma tenantDomain_Inr: "\<exists>v. tenantDomain req = Inr v"
proof -
  obtain r where r: "resolvedFromHeader req = Inr r"
    using resolvedFromHeader_Inr by blast
  obtain v where v: "extractTenantDomain (host req) = Inr v"
    using extractTenantDomain_Inr by blast
  show ?thesis
    unfolding tenantDomain_def using r v by simp
qed


section \<open>The case analysis of the extractor\<close>







section \<open>Totality of the extractor\<close>

text \<open>
  C8, as amended. The extractor returns a value for every input, absent or a string: it
  never throws. For an absent host (\<open>null\<close>, \<open>undefined\<close> or the empty string) the
  value is \<open>null\<close>. (A malformed host string is not detected: it goes through the same
  case analysis as any other.)
\<close>

theorem extractTenantDomain_total:
  "(\<exists>v. extractTenantDomain h = Inr v) \<and>
   (\<not> truthy h \<longrightarrow> extractTenantDomain h = Inr None)"
  using extractTenantDomain_Inr [of h] extractTenantDomain_falsy [of h] by blast

theorem extractTenantDomain_total_witness:
  "\<not> truthy (Some []) \<and> extractTenantDomain (Some []) = Inr None \<and>
   \<not> truthy None \<and> extractTenantDomain None = Inr None"
  using extractTenantDomain_total [of "Some []"] extractTenantDomain_total [of None]
  by (simp add: truthy_def)

text \<open>
  C8 as stated fails: the string \<open>not a host\<close> is no host name, and the extractor
  returns it as the tenant key instead of \<open>null\<close>.
\<close>

theorem extractTenantDomain_malformed_counterexample:
  "extractTenantDomain (Some ''not a host'') = Inr (Some ''not a host'') \<and>
   extractTenantDomain (Some ''not a host'') \<noteq> Inr None"
  by (simp add: extractTenantDomain_def index_def includes_str_def)


section \<open>The resolution key\<close>

text \<open>
  C3, as amended. The key is the \<open>X-Tenant-Subdomain\<close> header when that is not empty;
  else what the extractor gives for the \<open>X-Tenant-Domain\<close> header when that is a key
  that is not empty; else what the extractor gives for the \<open>Host\<close> header. So an
  \<open>X-Tenant-Subdomain\<close> header that is not empty decides the key whatever the
  \<open>Host\<close> header is, and an \<open>X-Tenant-Domain\<close> header that the extractor maps to
  \<open>null\<close> falls back to the \<open>Host\<close> header.
\<close>

theorem tenantDomain_precedence:
  "tenantDomain req =
     (if truthy (x_tenant_subdomain req) then Inr (x_tenant_subdomain req)
      else if \<exists>k. k \<noteq> [] \<and> extractTenantDomain (x_tenant_domain req) = Inr (Some k)
        then extractTenantDomain (x_tenant_domain req)
      else extractTenantDomain (host req))"
proof -
  obtain v where v: "extractTenantDomain (x_tenant_domain req) = Inr v"
    using extractTenantDomain_Inr by blast
  show ?thesis
  proof (cases "truthy (x_tenant_domain req)")
    case True
    with v show ?thesis
      by (cases v) (auto simp: tenantDomain_def resolvedFromHeader_def truthy_def)
  next
    case False
    then have "v = None"
      using v extractTenantDomain_falsy by fastforce
    with v False show ?thesis
      by (auto simp: tenantDomain_def resolvedFromHeader_def truthy_def)
  qed
qed

text \<open>\<open>X-Tenant-Subdomain: beta\<close> wins over \<open>Host: acme.example.com\<close>.\<close>

theorem tenantDomain_precedence_witness:
  "tenantDomain request_subdomain_beta = Inr (Some ''beta'') \<and>
   extractTenantDomain (host request_subdomain_beta) = Inr (Some ''acme'')"
  using tenantDomain_precedence [of request_subdomain_beta]
  by (simp add: request_subdomain_beta_def truthy_def extractTenantDomain_def index_def
      includes_str_def)

text \<open>
  C3 as stated fails: with \<open>X-Tenant-Domain: localhost\<close> and
  \<open>Host: acme.example.com\<close> the strict precedence gives \<open>null\<close> (the extractor on a
  reserved name), the code gives \<open>acme\<close>, from the \<open>Host\<close> header.
\<close>

theorem tenantDomain_precedence_counterexample:
  "tenantDomain request_domain_localhost = Inr (Some ''acme'') \<and>
   key_by_strict_precedence request_domain_localhost = Inr None"
  by (simp add: tenantDomain_def resolvedFromHeader_def key_by_strict_precedence_def
      request_domain_localhost_def truthy_def extractTenantDomain_def index_def includes_str_def)


section \<open>Administrative paths\<close>

text \<open>
  C4. A request whose path starts with \<open>/api/v1/admin\<close> or \<open>/api/v1/super-admin\<close>
  has one effect only, whatever its headers and whatever the directory holds: the rest of
  the chain runs in the empty context. There is no directory query and no error.
\<close>

theorem resolveTenant_admin_path:
  assumes "startsWith (path req) ''/api/v1/admin'' \<or>
           startsWith (path req) ''/api/v1/super-admin''"
  shows "resolveTenant findOne req = [ContextRun empty_context]"
proof -
  obtain v where v: "tenantDomain req = Inr v"
    using tenantDomain_Inr by blast
  with assms show ?thesis
    by (cases v) (auto simp: resolveTenant_def)
qed

theorem resolveTenant_admin_path_witness:
  "(startsWith (path (request_to ''ghost.example.com'' ''/api/v1/super-admin/tenants''))
      ''/api/v1/admin'' \<or>
    startsWith (path (request_to ''ghost.example.com'' ''/api/v1/super-admin/tenants''))
      ''/api/v1/super-admin'') \<and>
   resolveTenant (directory_of acme_active)
     (request_to ''ghost.example.com'' ''/api/v1/super-admin/tenants'') =
     [ContextRun empty_context]"
  using resolveTenant_admin_path
    [of "request_to ''ghost.example.com'' ''/api/v1/super-admin/tenants''"
        "directory_of acme_active"]
  by (simp add: request_to_def startsWith_def)


section \<open>Inactive tenants\<close>

text \<open>
  C1. Past the guard of the administrative paths and of the empty key (lines 52 to 54),
  that is for a request whose path is under neither administrative prefix and whose key
  is not empty: when the key is that of a tenant of the directory with subscription
  status \<open>inactive\<close>, the resolver queries the directory, stores the tenant in
  \<open>req.tenant\<close> and passes to \<open>next\<close> the error \<open>Tenant account is inactive\<close> with
  status 403. No context is published, so nothing scoped to the tenant runs.
\<close>

theorem resolveTenant_inactive:
  assumes "tenantDomain req = Inr (Some key)" and "key \<noteq> []"
    and "\<not> startsWith (path req) ''/api/v1/admin''"
    and "\<not> startsWith (path req) ''/api/v1/super-admin''"
    and "findOne key = Some t" and "subscription_status t = Some ''inactive''"
  shows "resolveTenant findOne req =
      [FindOne key, SetReqTenant t,
       NextError \<lparr>message = ''Tenant account is inactive'', statusCode = 403\<rparr>] \<and>
     (\<forall>c. ContextRun c \<notin> set (resolveTenant findOne req))"
  using assms by (simp add: resolveTenant_def)

theorem resolveTenant_inactive_witness:
  "tenantDomain (request_to ''acme.example.com'' ''/api/v1/services'') = Inr (Some ''acme'') \<and>
   ''acme'' \<noteq> [] \<and>
   \<not> startsWith (path (request_to ''acme.example.com'' ''/api/v1/services'')) ''/api/v1/admin'' \<and>
   \<not> startsWith (path (request_to ''acme.example.com'' ''/api/v1/services''))
       ''/api/v1/super-admin'' \<and>
   directory_of acme_inactive ''acme'' = Some acme_inactive \<and>
   subscription_status acme_inactive = Some ''inactive'' \<and>
   resolveTenant (directory_of acme_inactive)
     (request_to ''acme.example.com'' ''/api/v1/services'') =
     [FindOne ''acme'', SetReqTenant acme_inactive,
      NextError \<lparr>message = ''Tenant account is inactive'', statusCode = 403\<rparr>]"
  using resolveTenant_inactive
    [of "request_to ''acme.example.com'' ''/api/v1/services''" "''acme''"
        "directory_of acme_inactive" acme_inactive]
  by (simp add: tenantDomain_def resolvedFromHeader_def request_to_def truthy_def
      extractTenantDomain_def index_def includes_str_def startsWith_def directory_of_def
      acme_inactive_def subscription_status_def)


section \<open>Unknown tenants\<close>

text \<open>
  C2. Past the guard of the administrative paths and of the empty key, when the key
  matches no tenant of the directory, the resolver queries the directory and passes to
  \<open>next\<close> an error with status 404, whose message ends with the key; the response the
  error handler makes of it has status 404 and the public message \<open>Tenant not found\<close>,
  the same for every key.
\<close>

theorem resolveTenant_not_found:
  assumes "tenantDomain req = Inr (Some key)" and "key \<noteq> []"
    and "\<not> startsWith (path req) ''/api/v1/admin''"
    and "\<not> startsWith (path req) ''/api/v1/super-admin''"
    and "findOne key = None"
  shows "resolveTenant findOne req =
      [FindOne key,
       NextError \<lparr>message = ''Tenant not found for domain: '' @ key, statusCode = 404\<rparr>] \<and>
     errorHandler \<lparr>message = ''Tenant not found for domain: '' @ key, statusCode = 404\<rparr> =
       \<lparr>response_status = 404, public_message = ''Tenant not found''\<rparr>"
  using assms by (simp add: resolveTenant_def errorHandler_def startsWith_def)

theorem resolveTenant_not_found_witness:
  "tenantDomain (request_to ''ghost.example.com'' ''/api/v1/services'') = Inr (Some ''ghost'') \<and>
   ''ghost'' \<noteq> [] \<and>
   \<not> startsWith (path (request_to ''ghost.example.com'' ''/api/v1/services''))
       ''/api/v1/admin'' \<and>
   \<not> startsWith (path (request_to ''ghost.example.com'' ''/api/v1/services''))
       ''/api/v1/super-admin'' \<and>
   directory_of acme_active ''ghost'' = None \<and>
   resolveTenant (directory_of acme_active)
     (request_to ''ghost.example.com'' ''/api/v1/services'') =
     [FindOne ''ghost'',
      NextError \<lparr>message = ''Tenant not found for domain: ghost'', statusCode = 404\<rparr>] \<and>
   errorHandler \<lparr>message = ''Tenant not found for domain: ghost'', statusCode = 404\<rparr> =
     \<lparr>response_status = 404, public_message = ''Tenant not found''\<rparr>"
  using resolveTenant_not_found
    [of "request_to ''ghost.example.com'' ''/api/v1/services''" "''ghost''"
        "directory_of acme_active"]
  by (simp add: tenantDomain_def resolvedFromHeader_def request_to_def truthy_def
      extractTenantDomain_def index_def includes_str_def startsWith_def directory_of_def
      acme_active_def)


section \<open>Which tenants are rejected\<close>

text \<open>
  C9. Past the guard of the administrative paths and of the empty key, when the directory
  holds a tenant for the key, the resolver queries the directory, stores the tenant in
  \<open>req.tenant\<close> and then passes the 403 error to \<open>next\<close> if and only if the
  subscription status of the tenant is the string \<open>inactive\<close>; for any other status
  (\<open>suspended\<close>, \<open>trialing\<close>, \<open>active\<close>) and for a tenant without a subscription it
  publishes the context \<open>{ tenantId, tenant }\<close> of that tenant.
\<close>

theorem resolveTenant_found:
  assumes "tenantDomain req = Inr (Some key)" and "key \<noteq> []"
    and "\<not> startsWith (path req) ''/api/v1/admin''"
    and "\<not> startsWith (path req) ''/api/v1/super-admin''"
    and "findOne key = Some t"
  shows "resolveTenant findOne req =
      [FindOne key, SetReqTenant t,
       if subscription_status t = Some ''inactive''
       then NextError \<lparr>message = ''Tenant account is inactive'', statusCode = 403\<rparr>
       else ContextRun \<lparr>tenantId = Some (tenant_id t), tenant = Some t\<rparr>]"
  using assms by (simp add: resolveTenant_def)

lemma tenantDomain_acme:
  "tenantDomain (request_to ''acme.example.com'' ''/api/v1/services'') = Inr (Some ''acme'')"
  by (simp add: tenantDomain_def resolvedFromHeader_def request_to_def truthy_def
      extractTenantDomain_def index_def includes_str_def)

lemma path_services:
  "\<not> startsWith (path (request_to ''acme.example.com'' ''/api/v1/services'')) ''/api/v1/admin''"
  "\<not> startsWith (path (request_to ''acme.example.com'' ''/api/v1/services''))
      ''/api/v1/super-admin''"
  by (simp_all add: request_to_def startsWith_def)

theorem resolveTenant_found_witness:
  "tenantDomain (request_to ''acme.example.com'' ''/api/v1/services'') = Inr (Some ''acme'') \<and>
   ''acme'' \<noteq> [] \<and>
   \<not> startsWith (path (request_to ''acme.example.com'' ''/api/v1/services''))
       ''/api/v1/admin'' \<and>
   \<not> startsWith (path (request_to ''acme.example.com'' ''/api/v1/services''))
       ''/api/v1/super-admin'' \<and>
   directory_of acme_trialing ''acme'' = Some acme_trialing \<and>
   resolveTenant (directory_of acme_trialing)
     (request_to ''acme.example.com'' ''/api/v1/services'') =
     [FindOne ''acme'', SetReqTenant acme_trialing,
      ContextRun \<lparr>tenantId = Some (tenant_id acme_trialing), tenant = Some acme_trialing\<rparr>] \<and>
   resolveTenant (directory_of acme_suspended)
     (request_to ''acme.example.com'' ''/api/v1/services'') =
     [FindOne ''acme'', SetReqTenant acme_suspended,
      ContextRun \<lparr>tenantId = Some (tenant_id acme_suspended), tenant = Some acme_suspended\<rparr>] \<and>
   resolveTenant (directory_of acme_active)
     (request_to ''acme.example.com'' ''/api/v1/services'') =
     [FindOne ''acme'', SetReqTenant acme_active,
      ContextRun \<lparr>tenantId = Some (tenant_id acme_active), tenant = Some acme_active\<rparr>] \<and>
   resolveTenant (directory_of acme_no_subscription)
     (request_to ''acme.example.com'' ''/api/v1/services'') =
     [FindOne ''acme'', SetReqTenant acme_no_subscription,
      ContextRun \<lparr>tenantId = Some (tenant_id acme_no_subscription),
                 tenant = Some acme_no_subscription\<rparr>] \<and>
   resolveTenant (directory_of acme_inactive)
     (request_to ''acme.example.com'' ''/api/v1/services'') =
     [FindOne ''acme'', SetReqTenant acme_inactive,
      NextError \<lparr>message = ''Tenant account is inactive'', statusCode = 403\<rparr>]"
proof -
  have d: "directory_of acme_trialing ''acme'' = Some acme_trialing"
    "directory_of acme_suspended ''acme'' = Some acme_suspended"
    "directory_of acme_active ''acme'' = Some acme_active"
    "directory_of acme_no_subscription ''acme'' = Some acme_no_subscription"
    "directory_of acme_inactive ''acme'' = Some acme_inactive"
    by (simp_all add: directory_of_def acme_trialing_def acme_suspended_def acme_active_def
        acme_no_subscription_def acme_inactive_def)
  have n: "subscription_status acme_trialing \<noteq> Some ''inactive''"
    "subscription_status acme_suspended \<noteq> Some ''inactive''"
    "subscription_status acme_active \<noteq> Some ''inactive''"
    "subscription_status acme_no_subscription \<noteq> Some ''inactive''"
    "subscription_status acme_inactive = Some ''inactive''"
    by (simp_all add: subscription_status_def acme_trialing_def acme_suspended_def
        acme_active_def acme_no_subscription_def acme_inactive_def)
  have k: "''acme'' \<noteq> []"
    by simp
  show ?thesis
    using resolveTenant_found
        [of "request_to ''acme.example.com'' ''/api/v1/services''" "''acme''"
            "directory_of acme_trialing" acme_trialing]
      resolveTenant_found
        [of "request_to ''acme.example.com'' ''/api/v1/services''" "''acme''"
            "directory_of acme_suspended" acme_suspended]
      resolveTenant_found
        [of "request_to ''acme.example.com'' ''/api/v1/services''" "''acme''"
            "directory_of acme_active" acme_active]
      resolveTenant_found
        [of "request_to ''acme.example.com'' ''/api/v1/services''" "''acme''"
            "directory_of acme_no_subscription" acme_no_subscription]
      resolveTenant_found
        [of "request_to ''acme.example.com'' ''/api/v1/services''" "''acme''"
            "directory_of acme_inactive" acme_inactive]
      tenantDomain_acme k path_services d n
    by simp
qed


section \<open>The access validator\<close>

lemma toString_eq: "toString a = toString b \<longleftrightarrow> a = b"
  by (cases a; cases b) simp

text \<open>
  C6. The validator passes for a user whose role is \<open>superAdmin\<close>, whatever the
  resolved tenant; it passes when the context holds no tenant; and for any other user in
  a context with a tenant it passes if and only if the \<open>tenantId\<close> of the user is that
  of the context, and on a mismatch it passes to \<open>next\<close> the error
  \<open>Access denied: User does not belong to this tenant\<close> with status 403.
\<close>

theorem validateTenantAccess_cases:
  "(user req = Some u \<and> role u = ''superAdmin'' \<longrightarrow> validateTenantAccess store req = Next) \<and>
   (store = None \<or> (\<exists>c. store = Some c \<and> tenantId c = None) \<longrightarrow>
      validateTenantAccess store req = Next) \<and>
   (user req = Some u \<and> role u \<noteq> ''superAdmin'' \<and> store = Some c \<and> tenantId c = Some tid \<longrightarrow>
      (validateTenantAccess store req = Next \<longleftrightarrow> user_tenantId u = Some tid) \<and>
      (user_tenantId u \<noteq> Some tid \<longrightarrow>
         validateTenantAccess store req =
           NextWith \<lparr>message = ''Access denied: User does not belong to this tenant'',
                     statusCode = 403\<rparr>))"
  by (cases "user_tenantId u")
    (auto simp: validateTenantAccess_def toString_eq split: option.splits)

theorem validateTenantAccess_cases_witness:
  "validateTenantAccess (Some acme_context) (request_by (Some beta_superAdmin)) = Next \<and>
   validateTenantAccess None (request_by (Some beta_staff)) = Next \<and>
   validateTenantAccess (Some acme_context) (request_by (Some acme_staff)) = Next \<and>
   validateTenantAccess (Some acme_context) (request_by (Some beta_staff)) =
     NextWith \<lparr>message = ''Access denied: User does not belong to this tenant'',
               statusCode = 403\<rparr>"
  using validateTenantAccess_cases
      [of "request_by (Some beta_superAdmin)" beta_superAdmin "Some acme_context"]
    validateTenantAccess_cases [of "request_by (Some beta_staff)" beta_staff None]
    validateTenantAccess_cases
      [of "request_by (Some acme_staff)" acme_staff "Some acme_context" acme_context
          "tenant_id acme_active"]
    validateTenantAccess_cases
      [of "request_by (Some beta_staff)" beta_staff "Some acme_context" acme_context
          "tenant_id acme_active"]
  by (simp add: request_by_def beta_superAdmin_def beta_staff_def acme_staff_def
      acme_context_def acme_active_def)

text \<open>
  C10. Without a user on the request the validator passes in every context, one with a
  tenant included; it passes an error to \<open>next\<close> only for a request that has a user,
  in a context with a tenant whose id is not the \<open>tenantId\<close> of that user.
\<close>

theorem validateTenantAccess_no_user:
  "(user req = None \<longrightarrow> validateTenantAccess store req = Next) \<and>
   (validateTenantAccess store req = NextWith e \<longrightarrow>
      (\<exists>u c tid. user req = Some u \<and> store = Some c \<and> tenantId c = Some tid \<and>
                 user_tenantId u \<noteq> Some tid))"
  by (auto simp: validateTenantAccess_def toString_eq split: option.splits if_splits)

theorem validateTenantAccess_no_user_witness:
  "user (request_by None) = None \<and>
   validateTenantAccess (Some acme_context) (request_by None) = Next \<and>
   validateTenantAccess (Some acme_context) (request_by (Some beta_staff)) =
     NextWith \<lparr>message = ''Access denied: User does not belong to this tenant'',
               statusCode = 403\<rparr> \<and>
   user_tenantId beta_staff \<noteq> tenantId acme_context"
proof -
  have a: "user (request_by None) = None"
    by (simp add: request_by_def)
  have b: "validateTenantAccess (Some acme_context) (request_by (Some beta_staff)) =
     NextWith \<lparr>message = ''Access denied: User does not belong to this tenant'',
               statusCode = 403\<rparr>"
    by (simp add: validateTenantAccess_def request_by_def beta_staff_def acme_context_def
        acme_active_def)
  have c: "validateTenantAccess (Some acme_context) (request_by None) = Next"
    using validateTenantAccess_no_user [of "request_by None" "Some acme_context"] a by simp
  have d: "user_tenantId beta_staff \<noteq> tenantId acme_context"
    using validateTenantAccess_no_user
      [of "request_by (Some beta_staff)" "Some acme_context"
          "\<lparr>message = ''Access denied: User does not belong to this tenant'',
            statusCode = 403\<rparr>"] b
    by (auto simp: request_by_def)
  from a b c d show ?thesis by simp
qed

end
